theory Spec2Isabelle
  imports Main
begin

section \<open>Data model of server.js\<close>

text \<open>
  Socket ids and room codes are JavaScript strings. A room code is whatever
  \<^verbatim>\<open>generateRoomCode\<close> returned (six letters drawn with \<^verbatim>\<open>Math.random\<close>);
  the draw is an input of \<open>createRoom\<close> here, so a code that is already in use
  is a possible input, as it is in the source.
\<close>

type_synonym sid = string
type_synonym roomcode = string

text \<open>The object \<^verbatim>\<open>{ id, name, isHost }\<close> built by createRoom and joinRoom.\<close>

record player =
  id_p :: sid
  name :: string
  isHost :: bool

text \<open>
  The value stored in the \<^verbatim>\<open>players\<close> map: \<^verbatim>\<open>{ ...player, roomCode }\<close>, a fresh
  object holding a copy of the three fields and the room code.
\<close>

record entry = player +
  roomCode :: roomcode

definition spread :: "player \<Rightarrow> roomcode \<Rightarrow> entry" where
  "spread p c = \<lparr>id_p = id_p p, name = name p, isHost = isHost p, roomCode = c\<rparr>"

text \<open>
  An element of \<^verbatim>\<open>room.drawings\<close> or \<^verbatim>\<open>room.slogans\<close>:
  \<^verbatim>\<open>{ playerId, drawing, timestamp }\<close> resp. \<^verbatim>\<open>{ playerId, slogan, timestamp }\<close>.
  The field \<open>payload\<close> is the drawing resp. the slogan; \<open>timestamp\<close> is the value
  of \<^verbatim>\<open>Date.now()\<close>, an input of the handler.
\<close>

record submission =
  playerId :: sid
  payload :: string
  timestamp :: nat

text \<open>The room object; \<open>players_room\<close> is the array \<^verbatim>\<open>room.players\<close>.\<close>

record room =
  code :: roomcode
  host :: sid
  players_room :: "player list"
  gameState :: string
  drawings :: "submission list"
  slogans :: "submission list"

text \<open>
  A running \<^verbatim>\<open>setInterval\<close> callback of startGame: the room code captured by
  the closure and its local variable \<^verbatim>\<open>countdown\<close>.
\<close>

record interval =
  roomCode_t :: roomcode
  countdown :: int

text \<open>
  The server: the two maps \<^verbatim>\<open>rooms\<close> and \<^verbatim>\<open>players\<close> of the source, the
  membership of the transport's broadcast groups (\<^verbatim>\<open>socket.join\<close> adds the socket
  to the group of that name, and a socket that disconnects has left all its
  groups when its disconnect handler runs), and the intervals that are armed,
  by handle. The transport also keeps one group per socket, named by the socket's
  id; the handlers only broadcast to room codes, so those groups are left out.
\<close>

record server =
  rooms :: "roomcode \<rightharpoonup> room"
  players :: "sid \<rightharpoonup> entry"
  adapter :: "roomcode \<Rightarrow> sid set"
  timers :: "nat \<rightharpoonup> interval"
  nextTimer :: nat

definition init :: server where
  "init = \<lparr>rooms = Map.empty, players = Map.empty, adapter = (\<lambda>_. {}),
           timers = Map.empty, nextTimer = 0\<rparr>"

subsection \<open>Outbound events\<close>

text \<open>
  The three messages sent with the event name \<^verbatim>\<open>error\<close>:
  \<open>RoomNotFound\<close> is the text "Sala nao encontrada!", \<open>RoomFull\<close> is
  "Sala cheia! Maximo 8 jogadores.", \<open>NotEnoughPlayers\<close> is "Minimo 2 jogadores!"
  (the source writes them with their accents).
\<close>

datatype error = RoomNotFound | RoomFull | NotEnoughPlayers

datatype message =
    RoomCreated roomcode sid
  | RoomJoined roomcode "player list" sid
  | PlayerJoined player
  | Error error
  | GameStarting int
  | CountdownUpdate int
  | PhaseUpdate string int
  | DrawingReceived string nat
  | SloganReceived string nat
  | ChatMessage string string string
  | NewHost player
  | PlayerLeft sid

text \<open>
  \<open>SocketEmit s m\<close> is \<^verbatim>\<open>socket.emit\<close> on the socket \<open>s\<close> of the handler: only
  \<open>s\<close> receives \<open>m\<close>. \<open>IoTo c rs m\<close> is \<^verbatim>\<open>io.to(c).emit\<close>: every socket that is in
  the group \<open>c\<close> at that moment receives \<open>m\<close>, the socket of the handler
  included when it is in the group; \<open>rs\<close> records that set.
\<close>

datatype out = SocketEmit sid message | IoTo roomcode "sid set" message

fun recipients :: "out \<Rightarrow> sid set" where
  "recipients (SocketEmit s m) = {s}"
| "recipients (IoTo c rs m) = rs"

fun message_of :: "out \<Rightarrow> message" where
  "message_of (SocketEmit s m) = m"
| "message_of (IoTo c rs m) = m"

definition io_to :: "server \<Rightarrow> roomcode \<Rightarrow> message \<Rightarrow> out" where
  "io_to st c m = IoTo c (adapter st c) m"

definition socket_join :: "server \<Rightarrow> sid \<Rightarrow> roomcode \<Rightarrow> server" where
  "socket_join st s c = st\<lparr>adapter := (adapter st)(c := insert s (adapter st c))\<rparr>"

definition leave_all :: "server \<Rightarrow> sid \<Rightarrow> server" where
  "leave_all st s = st\<lparr>adapter := (\<lambda>c. adapter st c - {s})\<rparr>"

section \<open>The handlers\<close>

text \<open>\<^verbatim>\<open>socket.on('createRoom')\<close>; \<open>rc\<close> is the result of generateRoomCode.\<close>

definition createRoom :: "server \<Rightarrow> sid \<Rightarrow> roomcode \<Rightarrow> string \<Rightarrow> server \<times> out list" where
  "createRoom st s rc playerName =
     (let player = \<lparr>id_p = s, name = playerName, isHost = True\<rparr>;
          room = \<lparr>code = rc, host = s, players_room = [player],
                  gameState = ''waiting'', drawings = [], slogans = []\<rparr>;
          st1 = st\<lparr>rooms := (rooms st)(rc \<mapsto> room),
                   players := (players st)(s \<mapsto> spread player rc)\<rparr>;
          st2 = socket_join st1 s rc
      in (st2, [SocketEmit s (RoomCreated rc s)]))"

text \<open>\<^verbatim>\<open>socket.on('joinRoom')\<close>.\<close>

definition joinRoom :: "server \<Rightarrow> sid \<Rightarrow> roomcode \<Rightarrow> string \<Rightarrow> server \<times> out list" where
  "joinRoom st s rc playerName =
     (case rooms st rc of
        None \<Rightarrow> (st, [SocketEmit s (Error RoomNotFound)])
      | Some room \<Rightarrow>
          if length (players_room room) \<ge> 8 then (st, [SocketEmit s (Error RoomFull)])
          else
            let player = \<lparr>id_p = s, name = playerName, isHost = False\<rparr>;
                room1 = room\<lparr>players_room := players_room room @ [player]\<rparr>;
                st1 = st\<lparr>rooms := (rooms st)(rc \<mapsto> room1),
                         players := (players st)(s \<mapsto> spread player rc)\<rparr>;
                st2 = socket_join st1 s rc
            in (st2, [SocketEmit s (RoomJoined rc (players_room room1) s),
                      io_to st2 rc (PlayerJoined player)]))"

text \<open>
  \<^verbatim>\<open>socket.on('startGame')\<close>. The interval gets the next free handle; its
  callback is \<open>tick\<close> below.
\<close>

definition startGame :: "server \<Rightarrow> sid \<Rightarrow> roomcode \<Rightarrow> server \<times> out list" where
  "startGame st s rc =
     (case rooms st rc of
        None \<Rightarrow> (st, [])
      | Some room \<Rightarrow>
          if host room \<noteq> s then (st, [])
          else if length (players_room room) < 2
          then (st, [SocketEmit s (Error NotEnoughPlayers)])
          else
            let room1 = room\<lparr>gameState := ''drawing''\<rparr>;
                st1 = st\<lparr>rooms := (rooms st)(rc \<mapsto> room1)\<rparr>;
                st2 = st1\<lparr>timers := (timers st1)(nextTimer st1 \<mapsto>
                                              \<lparr>roomCode_t = rc, countdown = 3\<rparr>),
                          nextTimer := Suc (nextTimer st1)\<rparr>
            in (st2, [io_to st1 rc (GameStarting 3)]))"

text \<open>
  One run of the interval's callback. A handle that is not armed (never set, or
  cleared by \<^verbatim>\<open>clearInterval\<close>) does not fire.
\<close>

definition tick :: "server \<Rightarrow> nat \<Rightarrow> server \<times> out list" where
  "tick st h =
     (case timers st h of
        None \<Rightarrow> (st, [])
      | Some t \<Rightarrow>
          let n = countdown t - 1;
              o1 = io_to st (roomCode_t t) (CountdownUpdate n)
          in if n \<le> 0
             then (st\<lparr>timers := (timers st)(h := None)\<rparr>,
                   [o1, io_to st (roomCode_t t) (PhaseUpdate ''drawing'' 90)])
             else (st\<lparr>timers := (timers st)(h \<mapsto> t\<lparr>countdown := n\<rparr>)\<rparr>, [o1]))"

text \<open>\<^verbatim>\<open>socket.on('submitDrawing')\<close>; \<open>now\<close> is \<^verbatim>\<open>Date.now()\<close>.\<close>

definition submitDrawing :: "server \<Rightarrow> sid \<Rightarrow> string \<Rightarrow> nat \<Rightarrow> server \<times> out list" where
  "submitDrawing st s drawing now =
     (case players st s of
        None \<Rightarrow> (st, [])
      | Some player \<Rightarrow>
          (case rooms st (roomCode player) of
             None \<Rightarrow> (st, [])
           | Some room \<Rightarrow>
               let room1 = room\<lparr>drawings := drawings room @
                                 [\<lparr>playerId = s, payload = drawing, timestamp = now\<rparr>]\<rparr>;
                   st1 = st\<lparr>rooms := (rooms st)(roomCode player \<mapsto> room1)\<rparr>
               in (st1, [io_to st1 (code room1)
                           (DrawingReceived (name player) (length (drawings room1)))])))"

text \<open>\<^verbatim>\<open>socket.on('submitSlogan')\<close>.\<close>

definition submitSlogan :: "server \<Rightarrow> sid \<Rightarrow> string \<Rightarrow> nat \<Rightarrow> server \<times> out list" where
  "submitSlogan st s slogan now =
     (case players st s of
        None \<Rightarrow> (st, [])
      | Some player \<Rightarrow>
          (case rooms st (roomCode player) of
             None \<Rightarrow> (st, [])
           | Some room \<Rightarrow>
               let room1 = room\<lparr>slogans := slogans room @
                                 [\<lparr>playerId = s, payload = slogan, timestamp = now\<rparr>]\<rparr>;
                   st1 = st\<lparr>rooms := (rooms st)(roomCode player \<mapsto> room1)\<rparr>
               in (st1, [io_to st1 (code room1)
                           (SloganReceived (name player) (length (slogans room1)))])))"

text \<open>\<^verbatim>\<open>socket.on('chatMessage')\<close>; \<open>time\<close> is the formatted clock time.\<close>

definition chatMessage :: "server \<Rightarrow> sid \<Rightarrow> string \<Rightarrow> string \<Rightarrow> server \<times> out list" where
  "chatMessage st s msg time =
     (case players st s of
        None \<Rightarrow> (st, [])
      | Some player \<Rightarrow> (st, [io_to st (roomCode player) (ChatMessage (name player) msg time)]))"

text \<open>
  \<^verbatim>\<open>socket.on('disconnect')\<close>. The socket has left its groups before the handler
  runs. \<open>promote\<close> is the body of the first \<^verbatim>\<open>if\<close>: it is only reached with a
  non-empty array, whose element 0 it changes in place.
\<close>

definition promote :: "server \<Rightarrow> room \<Rightarrow> room \<times> out list" where
  "promote st room =
     (case players_room room of
        [] \<Rightarrow> (room, [])
      | p # ps \<Rightarrow>
          let p1 = p\<lparr>isHost := True\<rparr>;
              room1 = room\<lparr>host := id_p p, players_room := p1 # ps\<rparr>
          in (room1, [io_to st (code room1) (NewHost p1)]))"

definition disconnect :: "server \<Rightarrow> sid \<Rightarrow> server \<times> out list" where
  "disconnect st0 s =
     (let st = leave_all st0 s in
      case players st s of
        None \<Rightarrow> (st, [])
      | Some player \<Rightarrow>
          (case rooms st (roomCode player) of
             None \<Rightarrow> (st\<lparr>players := (players st)(s := None)\<rparr>, [])
           | Some room \<Rightarrow>
               let room1 = room\<lparr>players_room := filter (\<lambda>p. id_p p \<noteq> s) (players_room room)\<rparr>;
                   (room2, o1) = (if host room1 = s \<and> length (players_room room1) > 0
                                  then promote st room1 else (room1, []));
                   rooms1 = (rooms st)(roomCode player \<mapsto> room2);
                   (rooms2, o2) = (if length (players_room room2) = 0
                                   then (rooms1(code room2 := None), [])
                                   else (rooms1, [io_to st (code room2) (PlayerLeft s)]))
               in (st\<lparr>rooms := rooms2, players := (players st)(s := None)\<rparr>, o1 @ o2)))"

section \<open>Event traces\<close>

datatype event =
    CreateRoom sid roomcode string
  | JoinRoom sid roomcode string
  | StartGame sid roomcode
  | SubmitDrawing sid string nat
  | SubmitSlogan sid string nat
  | Chat sid string string
  | Disconnect sid
  | Tick nat

fun step :: "server \<Rightarrow> event \<Rightarrow> server \<times> out list" where
  "step st (CreateRoom s c n) = createRoom st s c n"
| "step st (JoinRoom s c n) = joinRoom st s c n"
| "step st (StartGame s c) = startGame st s c"
| "step st (SubmitDrawing s d t) = submitDrawing st s d t"
| "step st (SubmitSlogan s d t) = submitSlogan st s d t"
| "step st (Chat s m t) = chatMessage st s m t"
| "step st (Disconnect s) = disconnect st s"
| "step st (Tick h) = tick st h"

text \<open>Handlers run to completion, one after the other, in arrival order.\<close>

fun run :: "server \<Rightarrow> event list \<Rightarrow> server \<times> out list" where
  "run st [] = (st, [])"
| "run st (e # es) =
     (let (st1, o1) = step st e; (st2, o2) = run st1 es in (st2, o1 @ o2))"

section \<open>Observations on traces\<close>

text \<open>
  What the callback of the interval \<open>h\<close> emits along a trace: the outputs of the
  steps \<open>Tick h\<close>, in order, whatever other events run in between.
\<close>

fun emitted_by :: "nat \<Rightarrow> server \<Rightarrow> event list \<Rightarrow> out list" where
  "emitted_by h st [] = []"
| "emitted_by h st (e # es) =
     (if e = Tick h then snd (step st e) else []) @ emitted_by h (fst (step st e)) es"

text \<open>The group and the message of an \<^verbatim>\<open>io.to(..).emit\<close>.\<close>

fun broadcast_of :: "out \<Rightarrow> (roomcode \<times> message) option" where
  "broadcast_of (IoTo c rs m) = Some (c, m)"
| "broadcast_of (SocketEmit s m) = None"

text \<open>
  The messages an interval whose variable \<^verbatim>\<open>countdown\<close> is \<open>k\<close> sends in its next
  \<open>n\<close> runs.
\<close>

fun countdown_msgs :: "int \<Rightarrow> nat \<Rightarrow> message list" where
  "countdown_msgs k 0 = []"
| "countdown_msgs k (Suc n) =
     (if k - 1 \<le> 0 then [CountdownUpdate (k - 1), PhaseUpdate ''drawing'' 90]
      else CountdownUpdate (k - 1) # countdown_msgs (k - 1) n)"

text \<open>A run of join requests for one room, each with its socket and player name.\<close>

definition joins :: "roomcode \<Rightarrow> (sid \<times> string) list \<Rightarrow> event list" where
  "joins rc js = map (\<lambda>(s, n). JoinRoom s rc n) js"

subsection \<open>Invariants of the two maps\<close>


text \<open>A socket with an entry in \<^verbatim>\<open>players\<close> is in the group of the entry's room.\<close>

definition directory_joined :: "server \<Rightarrow> bool" where
  "directory_joined st = (\<forall>s e. players st s = Some e \<longrightarrow> s \<in> adapter st (roomCode e))"

subsection \<open>Sample states\<close>

text \<open>A room with its creator alone, and the same room after a second player joined.\<close>

definition ann :: player where
  "ann = \<lparr>id_p = ''s1'', name = ''ann'', isHost = True\<rparr>"

definition bob :: player where
  "bob = \<lparr>id_p = ''s2'', name = ''bob'', isHost = False\<rparr>"

definition room_of_one :: room where
  "room_of_one = \<lparr>code = ''ABCDEF'', host = ''s1'', players_room = [ann],
                   gameState = ''waiting'', drawings = [], slogans = []\<rparr>"

definition room_of_two :: room where
  "room_of_two = \<lparr>code = ''ABCDEF'', host = ''s1'', players_room = [ann, bob],
                   gameState = ''waiting'', drawings = [], slogans = []\<rparr>"

definition lobby1 :: server where
  "lobby1 = fst (run init [CreateRoom ''s1'' ''ABCDEF'' ''ann''])"

definition lobby2 :: server where
  "lobby2 = fst (run init [CreateRoom ''s1'' ''ABCDEF'' ''ann'',
                           JoinRoom ''s2'' ''ABCDEF'' ''bob''])"

definition seven :: "(sid \<times> string) list" where
  "seven = [(''s2'', ''bob''), (''s3'', ''cy''), (''s4'', ''dee''), (''s5'', ''eve''),
            (''s6'', ''fay''), (''s7'', ''gus''), (''s8'', ''hal'')]"

text \<open>Two rooms, each with its creator alone.\<close>

definition two_rooms :: server where
  "two_rooms = fst (run init [CreateRoom ''s1'' ''ABCDEF'' ''ann'',
                              CreateRoom ''s9'' ''GHIJKL'' ''zoe''])"



text \<open>The scenario of the countdown: a room, two more players, the host starts.\<close>

definition lobby3 :: server where
  "lobby3 = fst (run init [CreateRoom ''s1'' ''ABCDEF'' ''ann'',
                           JoinRoom ''s2'' ''ABCDEF'' ''bob'',
                           JoinRoom ''s3'' ''ABCDEF'' ''cy''])"

section \<open>Basic facts\<close>

lemma fst_run_Cons: "fst (run st (e # es)) = fst (run (fst (step st e)) es)"
  by (simp add: case_prod_beta Let_def)

lemma createRoom_eq:
  "createRoom st s rc n =
     (st\<lparr>rooms := (rooms st)(rc \<mapsto> \<lparr>code = rc, host = s,
                       players_room = [\<lparr>id_p = s, name = n, isHost = True\<rparr>],
                       gameState = ''waiting'', drawings = [], slogans = []\<rparr>),
         players := (players st)(s \<mapsto> \<lparr>id_p = s, name = n, isHost = True, roomCode = rc\<rparr>),
         adapter := (adapter st)(rc := insert s (adapter st rc))\<rparr>,
      [SocketEmit s (RoomCreated rc s)])"
  by (simp add: createRoom_def Let_def socket_join_def spread_def)

lemma joinRoom_missing:
  "rooms st rc = None \<Longrightarrow> joinRoom st s rc n = (st, [SocketEmit s (Error RoomNotFound)])"
  by (simp add: joinRoom_def)

lemma joinRoom_full:
  "rooms st rc = Some room \<Longrightarrow> 8 \<le> length (players_room room) \<Longrightarrow>
   joinRoom st s rc n = (st, [SocketEmit s (Error RoomFull)])"
  by (simp add: joinRoom_def)

lemma joinRoom_ok:
  "rooms st rc = Some room \<Longrightarrow> length (players_room room) < 8 \<Longrightarrow>
   joinRoom st s rc n =
     (st\<lparr>rooms := (rooms st)(rc \<mapsto> room\<lparr>players_room := players_room room @
                       [\<lparr>id_p = s, name = n, isHost = False\<rparr>]\<rparr>),
         players := (players st)(s \<mapsto> \<lparr>id_p = s, name = n, isHost = False, roomCode = rc\<rparr>),
         adapter := (adapter st)(rc := insert s (adapter st rc))\<rparr>,
      [SocketEmit s (RoomJoined rc (players_room room @ [\<lparr>id_p = s, name = n, isHost = False\<rparr>]) s),
       IoTo rc (insert s (adapter st rc)) (PlayerJoined \<lparr>id_p = s, name = n, isHost = False\<rparr>)])"
  by (simp add: joinRoom_def Let_def socket_join_def io_to_def spread_def)

lemma submitDrawing_ok:
  "players st s = Some e \<Longrightarrow> rooms st (roomCode e) = Some room \<Longrightarrow>
   submitDrawing st s d t =
     (st\<lparr>rooms := (rooms st)(roomCode e \<mapsto> room\<lparr>drawings := drawings room @
                       [\<lparr>playerId = s, payload = d, timestamp = t\<rparr>]\<rparr>)\<rparr>,
      [IoTo (code room) (adapter st (code room))
         (DrawingReceived (name e) (Suc (length (drawings room))))])"
  by (simp add: submitDrawing_def Let_def io_to_def)

lemma submitSlogan_ok:
  "players st s = Some e \<Longrightarrow> rooms st (roomCode e) = Some room \<Longrightarrow>
   submitSlogan st s d t =
     (st\<lparr>rooms := (rooms st)(roomCode e \<mapsto> room\<lparr>slogans := slogans room @
                       [\<lparr>playerId = s, payload = d, timestamp = t\<rparr>]\<rparr>)\<rparr>,
      [IoTo (code room) (adapter st (code room))
         (SloganReceived (name e) (Suc (length (slogans room))))])"
  by (simp add: submitSlogan_def Let_def io_to_def)



subsection \<open>The sample states, evaluated\<close>

lemma lobby1_rooms: "rooms lobby1 = Map.empty(''ABCDEF'' \<mapsto> room_of_one)"
  by (simp add: lobby1_def init_def createRoom_eq room_of_one_def ann_def)

lemma lobby1_players:
  "players lobby1 = Map.empty(''s1'' \<mapsto>
      \<lparr>id_p = ''s1'', name = ''ann'', isHost = True, roomCode = ''ABCDEF''\<rparr>)"
  by (simp add: lobby1_def init_def createRoom_eq)

lemma lobby1_adapter: "adapter lobby1 = (\<lambda>_. {})(''ABCDEF'' := {''s1''})"
  by (simp add: lobby1_def init_def createRoom_eq)

lemma lobby2_eq: "lobby2 = fst (joinRoom lobby1 ''s2'' ''ABCDEF'' ''bob'')"
  by (simp add: lobby2_def lobby1_def case_prod_beta)

lemma lobby2_rooms: "rooms lobby2 = Map.empty(''ABCDEF'' \<mapsto> room_of_two)"
  by (simp add: lobby2_eq joinRoom_def Let_def socket_join_def lobby1_rooms
      room_of_one_def room_of_two_def bob_def)

lemma lobby2_players:
  "players lobby2 = Map.empty(
     ''s1'' \<mapsto> \<lparr>id_p = ''s1'', name = ''ann'', isHost = True, roomCode = ''ABCDEF''\<rparr>,
     ''s2'' \<mapsto> \<lparr>id_p = ''s2'', name = ''bob'', isHost = False, roomCode = ''ABCDEF''\<rparr>)"
  by (simp add: lobby2_eq joinRoom_def Let_def socket_join_def spread_def lobby1_rooms
      lobby1_players room_of_one_def)

lemma lobby2_adapter: "adapter lobby2 = (\<lambda>_. {})(''ABCDEF'' := {''s2'', ''s1''})"
  by (simp add: lobby2_eq joinRoom_def Let_def socket_join_def lobby1_rooms lobby1_adapter
      room_of_one_def)

lemma lobby2_timers: "timers lobby2 = Map.empty" "nextTimer lobby2 = 0"
  by (simp_all add: lobby2_eq joinRoom_def Let_def socket_join_def lobby1_rooms lobby1_def
      init_def createRoom_eq room_of_one_def)

lemma two_rooms_rooms:
  "rooms two_rooms = Map.empty(''ABCDEF'' \<mapsto> room_of_one,
     ''GHIJKL'' \<mapsto> \<lparr>code = ''GHIJKL'', host = ''s9'',
        players_room = [\<lparr>id_p = ''s9'', name = ''zoe'', isHost = True\<rparr>],
        gameState = ''waiting'', drawings = [], slogans = []\<rparr>)"
  by (simp add: two_rooms_def init_def createRoom_eq room_of_one_def ann_def case_prod_beta)

subsection \<open>The invariants hold in every reachable state\<close>












lemma directory_joined_init: "directory_joined init"
  by (simp add: directory_joined_def init_def)

lemma directory_joined_step: "directory_joined st \<Longrightarrow> directory_joined (fst (step st e))"
  by (cases e)
     (auto simp: directory_joined_def createRoom_def joinRoom_def startGame_def tick_def
        submitDrawing_def submitSlogan_def chatMessage_def disconnect_def Let_def
        socket_join_def leave_all_def spread_def
        split: option.splits prod.splits if_splits)

lemma directory_joined_run: "directory_joined st \<Longrightarrow> directory_joined (fst (run st evs))"
proof (induction evs arbitrary: st)
  case Nil
  then show ?case by simp
next
  case (Cons e evs)
  from Cons.prems have "directory_joined (fst (step st e))" by (rule directory_joined_step)
  then have "directory_joined (fst (run (fst (step st e)) evs))" by (rule Cons.IH)
  then show ?case by (simp only: fst_run_Cons)
qed

subsection \<open>Runs of join requests\<close>

lemma roster_after_joins:
  "rooms st rc = Some room \<Longrightarrow>
   \<exists>room'. rooms (fst (run st (joins rc js))) rc = Some room' \<and>
     length (players_room room') =
       (if 8 \<le> length (players_room room) then length (players_room room)
        else min 8 (length (players_room room) + length js))"
proof (induction js arbitrary: st room)
  case Nil
  then show ?case by (simp add: joins_def)
next
  case (Cons j js)
  obtain s n where j: "j = (s, n)" by (cases j)
  have unfold: "fst (run st (joins rc (j # js))) = fst (run (fst (joinRoom st s rc n)) (joins rc js))"
    by (simp add: joins_def j case_prod_beta Let_def)
  show ?case
  proof (cases "8 \<le> length (players_room room)")
    case True
    with Cons.prems have "fst (joinRoom st s rc n) = st" by (simp add: joinRoom_full)
    with Cons.IH [OF Cons.prems, of ] True show ?thesis by (simp add: unfold)
  next
    case False
    let ?room1 = "room\<lparr>players_room := players_room room @
                       [\<lparr>id_p = s, name = n, isHost = False\<rparr>]\<rparr>"
    from False Cons.prems have "rooms (fst (joinRoom st s rc n)) rc = Some ?room1"
      by (simp add: joinRoom_ok)
    from Cons.IH [OF this] False show ?thesis by (auto simp: unfold min_def)
  qed
qed

section \<open>joinRoom\<close>

text \<open>
  C5. joinRoom answers \<open>RoomNotFound\<close> when no room is stored under the code. For a
  stored room it answers \<open>RoomFull\<close> exactly when the roster has 8 or more players,
  and then changes nothing; otherwise it appends a player with \<open>isHost = False\<close> to
  the roster and sends the joiner the roster and its own id. After any run of
  \<open>k\<close> join requests for a room, a further request is answered \<open>RoomFull\<close> exactly
  when the roster before the run had at least \<open>8 - k\<close> players: never while the roster
  is below 8, always from the ninth request on.
\<close>

theorem joinRoom_outcomes:
  "(rooms st rc = None \<longrightarrow> joinRoom st s rc n = (st, [SocketEmit s (Error RoomNotFound)])) \<and>
   (\<forall>room. rooms st rc = Some room \<longrightarrow>
      (snd (joinRoom st s rc n) = [SocketEmit s (Error RoomFull)])
        = (8 \<le> length (players_room room)) \<and>
      snd (joinRoom st s rc n) \<noteq> [SocketEmit s (Error RoomNotFound)] \<and>
      (8 \<le> length (players_room room) \<longrightarrow> fst (joinRoom st s rc n) = st) \<and>
      (length (players_room room) < 8 \<longrightarrow>
         rooms (fst (joinRoom st s rc n)) rc =
           Some (room\<lparr>players_room := players_room room @
                         [\<lparr>id_p = s, name = n, isHost = False\<rparr>]\<rparr>) \<and>
         snd (joinRoom st s rc n) =
           [SocketEmit s (RoomJoined rc
              (players_room room @ [\<lparr>id_p = s, name = n, isHost = False\<rparr>]) s),
            IoTo rc (insert s (adapter st rc))
              (PlayerJoined \<lparr>id_p = s, name = n, isHost = False\<rparr>)]) \<and>
      (\<forall>js. (snd (joinRoom (fst (run st (joins rc js))) s rc n) = [SocketEmit s (Error RoomFull)])
              = (8 \<le> length (players_room room) + length js)))"
proof (intro conjI allI impI)
  assume "rooms st rc = None"
  then show "joinRoom st s rc n = (st, [SocketEmit s (Error RoomNotFound)])"
    by (rule joinRoom_missing)
next
  fix room assume r: "rooms st rc = Some room"
  show "(snd (joinRoom st s rc n) = [SocketEmit s (Error RoomFull)])
          = (8 \<le> length (players_room room))"
    using r by (cases "8 \<le> length (players_room room)") (simp_all add: joinRoom_full joinRoom_ok)
  show "snd (joinRoom st s rc n) \<noteq> [SocketEmit s (Error RoomNotFound)]"
    using r by (cases "8 \<le> length (players_room room)") (simp_all add: joinRoom_full joinRoom_ok)
  {
    assume "8 \<le> length (players_room room)"
    with r show "fst (joinRoom st s rc n) = st" by (simp add: joinRoom_full)
  }
  {
    assume "length (players_room room) < 8"
    with r show "rooms (fst (joinRoom st s rc n)) rc =
           Some (room\<lparr>players_room := players_room room @
                         [\<lparr>id_p = s, name = n, isHost = False\<rparr>]\<rparr>)"
      and "snd (joinRoom st s rc n) =
           [SocketEmit s (RoomJoined rc
              (players_room room @ [\<lparr>id_p = s, name = n, isHost = False\<rparr>]) s),
            IoTo rc (insert s (adapter st rc))
              (PlayerJoined \<lparr>id_p = s, name = n, isHost = False\<rparr>)]"
      by (simp_all add: joinRoom_ok)
  }
  fix js
  from roster_after_joins [OF r, of js] obtain room' where
    r': "rooms (fst (run st (joins rc js))) rc = Some room'" and
    len: "length (players_room room') =
       (if 8 \<le> length (players_room room) then length (players_room room)
        else min 8 (length (players_room room) + length js))" by blast
  have "(snd (joinRoom (fst (run st (joins rc js))) s rc n) = [SocketEmit s (Error RoomFull)])
          = (8 \<le> length (players_room room'))"
    using r' by (cases "8 \<le> length (players_room room')") (simp_all add: joinRoom_full joinRoom_ok)
  also have "\<dots> = (8 \<le> length (players_room room) + length js)"
    using len by (auto simp: min_def)
  finally show "(snd (joinRoom (fst (run st (joins rc js))) s rc n) = [SocketEmit s (Error RoomFull)])
          = (8 \<le> length (players_room room) + length js)" .
qed

theorem joinRoom_outcomes_witness:
  "rooms lobby1 ''QQQQQQ'' = None \<and>
   joinRoom lobby1 ''s2'' ''QQQQQQ'' ''bob'' = (lobby1, [SocketEmit ''s2'' (Error RoomNotFound)]) \<and>
   rooms lobby1 ''ABCDEF'' = Some room_of_one \<and> length (players_room room_of_one) < 8 \<and>
   rooms (fst (joinRoom lobby1 ''s2'' ''ABCDEF'' ''bob'')) ''ABCDEF'' = Some room_of_two \<and>
   snd (joinRoom lobby1 ''s2'' ''ABCDEF'' ''bob'')
     = [SocketEmit ''s2'' (RoomJoined ''ABCDEF'' [ann, bob] ''s2''),
        IoTo ''ABCDEF'' {''s2'', ''s1''} (PlayerJoined bob)] \<and>
   8 \<le> length (players_room room_of_one) + length seven \<and>
   snd (joinRoom (fst (run lobby1 (joins ''ABCDEF'' seven))) ''s9'' ''ABCDEF'' ''zoe'')
     = [SocketEmit ''s9'' (Error RoomFull)]"
  using joinRoom_outcomes [where st = lobby1 and rc = "''QQQQQQ''" and s = "''s2''" and n = "''bob''"]
    joinRoom_outcomes [where st = lobby1 and rc = "''ABCDEF''" and s = "''s2''" and n = "''bob''"]
    joinRoom_outcomes [where st = lobby1 and rc = "''ABCDEF''" and s = "''s9''" and n = "''zoe''"]
  by (simp add: lobby1_rooms lobby1_adapter room_of_one_def room_of_two_def bob_def seven_def)

section \<open>startGame\<close>

text \<open>
  C6. startGame for a code under which no room is stored, or from a socket that is
  not the room's host, returns without emitting anything and without changing the
  state. From the host of a room with fewer than 2 players it emits the error to
  that socket alone and changes nothing. In all three cases the state, and with it
  the room's \<open>gameState\<close>, is the one before the call.
\<close>

theorem startGame_rejected:
  "(rooms st rc = None \<longrightarrow> startGame st s rc = (st, [])) \<and>
   (\<forall>room. rooms st rc = Some room \<and> host room \<noteq> s \<longrightarrow> startGame st s rc = (st, [])) \<and>
   (\<forall>room. rooms st rc = Some room \<and> host room = s \<and> length (players_room room) < 2 \<longrightarrow>
      startGame st s rc = (st, [SocketEmit s (Error NotEnoughPlayers)]) \<and>
      recipients (SocketEmit s (Error NotEnoughPlayers)) = {s})"
  by (simp add: startGame_def)

theorem startGame_rejected_witness:
  "rooms lobby2 ''QQQQQQ'' = None \<and> startGame lobby2 ''s1'' ''QQQQQQ'' = (lobby2, []) \<and>
   rooms lobby2 ''ABCDEF'' = Some room_of_two \<and> host room_of_two \<noteq> ''s2'' \<and>
   startGame lobby2 ''s2'' ''ABCDEF'' = (lobby2, []) \<and>
   rooms lobby1 ''ABCDEF'' = Some room_of_one \<and> host room_of_one = ''s1'' \<and>
   length (players_room room_of_one) < 2 \<and>
   startGame lobby1 ''s1'' ''ABCDEF'' = (lobby1, [SocketEmit ''s1'' (Error NotEnoughPlayers)])"
  using startGame_rejected [where st = lobby2 and rc = "''QQQQQQ''" and s = "''s1''"]
    startGame_rejected [where st = lobby2 and rc = "''ABCDEF''" and s = "''s2''"]
    startGame_rejected [where st = lobby1 and rc = "''ABCDEF''" and s = "''s1''"]
  by (simp add: lobby1_rooms lobby2_rooms room_of_one_def room_of_two_def)

section \<open>Submissions\<close>

text \<open>
  C9. When the socket has an entry in \<^verbatim>\<open>players\<close> and the entry's room is stored,
  submitDrawing appends one entry to the room's \<open>drawings\<close> and broadcasts a total
  equal to the new length of that list; submitSlogan does the same with \<open>slogans\<close>.
  A second submission by the same socket appends a second entry and is counted
  again: the total counts submissions, not submitters.
\<close>

theorem submissions_counted:
  assumes "players st s = Some e" and "rooms st (roomCode e) = Some room"
  shows "submitDrawing st s d t =
           (st\<lparr>rooms := (rooms st)(roomCode e \<mapsto> room\<lparr>drawings := drawings room @
                             [\<lparr>playerId = s, payload = d, timestamp = t\<rparr>]\<rparr>)\<rparr>,
            [IoTo (code room) (adapter st (code room))
               (DrawingReceived (name e) (length (drawings room) + 1))]) \<and>
         submitSlogan st s d t =
           (st\<lparr>rooms := (rooms st)(roomCode e \<mapsto> room\<lparr>slogans := slogans room @
                             [\<lparr>playerId = s, payload = d, timestamp = t\<rparr>]\<rparr>)\<rparr>,
            [IoTo (code room) (adapter st (code room))
               (SloganReceived (name e) (length (slogans room) + 1))]) \<and>
         map message_of (snd (run st [SubmitDrawing s d t, SubmitDrawing s d' t'])) =
           [DrawingReceived (name e) (length (drawings room) + 1),
            DrawingReceived (name e) (length (drawings room) + 2)] \<and>
         map_option drawings (rooms (fst (run st [SubmitDrawing s d t, SubmitDrawing s d' t']))
                                (roomCode e)) =
           Some (drawings room @ [\<lparr>playerId = s, payload = d, timestamp = t\<rparr>,
                                  \<lparr>playerId = s, payload = d', timestamp = t'\<rparr>]) \<and>
         map message_of (snd (run st [SubmitSlogan s d t, SubmitSlogan s d' t'])) =
           [SloganReceived (name e) (length (slogans room) + 1),
            SloganReceived (name e) (length (slogans room) + 2)] \<and>
         map_option slogans (rooms (fst (run st [SubmitSlogan s d t, SubmitSlogan s d' t']))
                               (roomCode e)) =
           Some (slogans room @ [\<lparr>playerId = s, payload = d, timestamp = t\<rparr>,
                                 \<lparr>playerId = s, payload = d', timestamp = t'\<rparr>])"
proof -
  let ?d1 = "room\<lparr>drawings := drawings room @ [\<lparr>playerId = s, payload = d, timestamp = t\<rparr>]\<rparr>"
  let ?s1 = "room\<lparr>slogans := slogans room @ [\<lparr>playerId = s, payload = d, timestamp = t\<rparr>]\<rparr>"
  let ?std = "st\<lparr>rooms := (rooms st)(roomCode e \<mapsto> ?d1)\<rparr>"
  let ?sts = "st\<lparr>rooms := (rooms st)(roomCode e \<mapsto> ?s1)\<rparr>"
  have d1: "submitDrawing st s d t =
      (?std, [IoTo (code room) (adapter st (code room))
                (DrawingReceived (name e) (Suc (length (drawings room))))])"
    using assms by (rule submitDrawing_ok)
  have s1: "submitSlogan st s d t =
      (?sts, [IoTo (code room) (adapter st (code room))
                (SloganReceived (name e) (Suc (length (slogans room))))])"
    using assms by (rule submitSlogan_ok)
  have "players ?std s = Some e" and "rooms ?std (roomCode e) = Some ?d1"
    using assms by simp_all
  then have d2: "submitDrawing ?std s d' t' =
      (?std\<lparr>rooms := (rooms ?std)(roomCode e \<mapsto> ?d1\<lparr>drawings := drawings ?d1 @
                          [\<lparr>playerId = s, payload = d', timestamp = t'\<rparr>]\<rparr>)\<rparr>,
       [IoTo (code ?d1) (adapter ?std (code ?d1))
          (DrawingReceived (name e) (Suc (length (drawings ?d1))))])"
    by (rule submitDrawing_ok)
  have "players ?sts s = Some e" and "rooms ?sts (roomCode e) = Some ?s1"
    using assms by simp_all
  then have s2: "submitSlogan ?sts s d' t' =
      (?sts\<lparr>rooms := (rooms ?sts)(roomCode e \<mapsto> ?s1\<lparr>slogans := slogans ?s1 @
                          [\<lparr>playerId = s, payload = d', timestamp = t'\<rparr>]\<rparr>)\<rparr>,
       [IoTo (code ?s1) (adapter ?sts (code ?s1))
          (SloganReceived (name e) (Suc (length (slogans ?s1))))])"
    by (rule submitSlogan_ok)
  show ?thesis
    by (simp add: d1 d2 s1 s2)
qed

theorem submissions_counted_witness:
  "players lobby2 ''s2'' = Some \<lparr>id_p = ''s2'', name = ''bob'', isHost = False, roomCode = ''ABCDEF''\<rparr> \<and>
   rooms lobby2 ''ABCDEF'' = Some room_of_two \<and>
   map message_of (snd (run lobby2 [SubmitDrawing ''s2'' ''cat'' 10, SubmitDrawing ''s2'' ''dog'' 20]))
     = [DrawingReceived ''bob'' 1, DrawingReceived ''bob'' 2] \<and>
   map message_of (snd (run lobby2 [SubmitSlogan ''s2'' ''hi'' 10, SubmitSlogan ''s2'' ''ho'' 20]))
     = [SloganReceived ''bob'' 1, SloganReceived ''bob'' 2]"
  using submissions_counted [where st = lobby2 and s = "''s2''" and room = room_of_two
      and e = "\<lparr>id_p = ''s2'', name = ''bob'', isHost = False, roomCode = ''ABCDEF''\<rparr>"
      and d = "''cat''" and t = 10 and d' = "''dog''" and t' = 20]
    submissions_counted [where st = lobby2 and s = "''s2''" and room = room_of_two
      and e = "\<lparr>id_p = ''s2'', name = ''bob'', isHost = False, roomCode = ''ABCDEF''\<rparr>"
      and d = "''hi''" and t = 10 and d' = "''ho''" and t' = 20]
  by (simp add: lobby2_players lobby2_rooms room_of_two_def del: run.simps)

section \<open>A socket that creates or joins a second room\<close>

text \<open>
  C10. createRoom and joinRoom leave every other room as it is. If the roster of
  room \<open>a\<close> holds a player of the acting socket and the socket creates room \<open>b\<close>, or
  joins a stored room \<open>b\<close> that is not full, with \<open>b\<close> different from \<open>a\<close>, then room
  \<open>a\<close> is unchanged, so its roster still holds that player, and the socket's one
  entry in \<^verbatim>\<open>players\<close> now names room \<open>b\<close>. A join that is refused changes nothing.
\<close>

theorem other_room_kept:
  assumes "rooms st a = Some ra" and "p \<in> set (players_room ra)" and "id_p p = s"
    and "b \<noteq> a"
  shows "rooms (fst (createRoom st s b n)) a = Some ra \<and>
         players (fst (createRoom st s b n)) s =
           Some \<lparr>id_p = s, name = n, isHost = True, roomCode = b\<rparr> \<and>
         rooms (fst (joinRoom st s b n)) a = Some ra \<and>
         (\<forall>rb. rooms st b = Some rb \<and> length (players_room rb) < 8 \<longrightarrow>
            players (fst (joinRoom st s b n)) s =
              Some \<lparr>id_p = s, name = n, isHost = False, roomCode = b\<rparr>) \<and>
         (rooms st b = None \<or> (\<exists>rb. rooms st b = Some rb \<and> 8 \<le> length (players_room rb)) \<longrightarrow>
            fst (joinRoom st s b n) = st)"
proof (intro conjI allI impI)
  show "rooms (fst (createRoom st s b n)) a = Some ra"
    using assms by (simp add: createRoom_eq)
  show "players (fst (createRoom st s b n)) s =
           Some \<lparr>id_p = s, name = n, isHost = True, roomCode = b\<rparr>"
    by (simp add: createRoom_eq)
  show "rooms (fst (joinRoom st s b n)) a = Some ra"
    using assms by (auto simp: joinRoom_def Let_def socket_join_def split: option.splits)
next
  fix rb assume "rooms st b = Some rb \<and> length (players_room rb) < 8"
  then show "players (fst (joinRoom st s b n)) s =
              Some \<lparr>id_p = s, name = n, isHost = False, roomCode = b\<rparr>"
    by (simp add: joinRoom_ok)
next
  assume "rooms st b = None \<or> (\<exists>rb. rooms st b = Some rb \<and> 8 \<le> length (players_room rb))"
  then show "fst (joinRoom st s b n) = st"
    by (auto simp: joinRoom_missing joinRoom_full)
qed

theorem other_room_kept_witness:
  "rooms two_rooms ''ABCDEF'' = Some room_of_one \<and> ann \<in> set (players_room room_of_one) \<and>
   id_p ann = ''s1'' \<and> ''GHIJKL'' \<noteq> ''ABCDEF'' \<and>
   rooms (fst (joinRoom two_rooms ''s1'' ''GHIJKL'' ''ann'')) ''ABCDEF'' = Some room_of_one \<and>
   players (fst (joinRoom two_rooms ''s1'' ''GHIJKL'' ''ann'')) ''s1'' =
     Some \<lparr>id_p = ''s1'', name = ''ann'', isHost = False, roomCode = ''GHIJKL''\<rparr> \<and>
   rooms (fst (createRoom two_rooms ''s1'' ''MNOPQR'' ''ann'')) ''ABCDEF'' = Some room_of_one \<and>
   players (fst (createRoom two_rooms ''s1'' ''MNOPQR'' ''ann'')) ''s1'' =
     Some \<lparr>id_p = ''s1'', name = ''ann'', isHost = True, roomCode = ''MNOPQR''\<rparr>"
  using other_room_kept [where st = two_rooms and a = "''ABCDEF''" and ra = room_of_one
      and p = ann and s = "''s1''" and b = "''GHIJKL''" and n = "''ann''"]
    other_room_kept [where st = two_rooms and a = "''ABCDEF''" and ra = room_of_one
      and p = ann and s = "''s1''" and b = "''MNOPQR''" and n = "''ann''"]
  by (simp add: two_rooms_rooms room_of_one_def ann_def)

section \<open>Who receives playerJoined\<close>

text \<open>
  C3, as the code has it. An accepted joinRoom sends the joiner \<open>roomJoined\<close> with the
  roster, the joiner appended, and the joiner's id. It then sends \<open>playerJoined\<close>
  with \<^verbatim>\<open>io.to(roomCode)\<close>, after \<^verbatim>\<open>socket.join(roomCode)\<close>: the recipients are all
  sockets that were in the room's group before, and the joiner. In a reachable
  state the group holds every socket whose entry in \<^verbatim>\<open>players\<close> names the room.
\<close>

theorem joinRoom_broadcast:
  assumes "st = fst (run init evs)" and "rooms st rc = Some room"
    and "length (players_room room) < 8"
  shows "snd (joinRoom st s rc n) =
           [SocketEmit s (RoomJoined rc
              (players_room room @ [\<lparr>id_p = s, name = n, isHost = False\<rparr>]) s),
            IoTo rc (insert s (adapter st rc))
              (PlayerJoined \<lparr>id_p = s, name = n, isHost = False\<rparr>)] \<and>
         (\<forall>s' e. players st s' = Some e \<and> roomCode e = rc \<longrightarrow> s' \<in> adapter st rc)"
proof
  show "snd (joinRoom st s rc n) =
           [SocketEmit s (RoomJoined rc
              (players_room room @ [\<lparr>id_p = s, name = n, isHost = False\<rparr>]) s),
            IoTo rc (insert s (adapter st rc))
              (PlayerJoined \<lparr>id_p = s, name = n, isHost = False\<rparr>)]"
    using assms(2,3) by (simp add: joinRoom_ok)
  have "directory_joined st"
    unfolding assms(1) using directory_joined_init by (rule directory_joined_run)
  then show "\<forall>s' e. players st s' = Some e \<and> roomCode e = rc \<longrightarrow> s' \<in> adapter st rc"
    by (auto simp: directory_joined_def)
qed

theorem joinRoom_broadcast_witness:
  "lobby1 = fst (run init [CreateRoom ''s1'' ''ABCDEF'' ''ann'']) \<and>
   rooms lobby1 ''ABCDEF'' = Some room_of_one \<and> length (players_room room_of_one) < 8 \<and>
   snd (joinRoom lobby1 ''s2'' ''ABCDEF'' ''bob'') =
     [SocketEmit ''s2'' (RoomJoined ''ABCDEF'' [ann, bob] ''s2''),
      IoTo ''ABCDEF'' {''s2'', ''s1''} (PlayerJoined bob)] \<and>
   players lobby1 ''s1'' =
     Some \<lparr>id_p = ''s1'', name = ''ann'', isHost = True, roomCode = ''ABCDEF''\<rparr> \<and>
   ''s1'' \<in> adapter lobby1 ''ABCDEF''"
  using joinRoom_broadcast [where st = lobby1 and evs = "[CreateRoom ''s1'' ''ABCDEF'' ''ann'']"
      and rc = "''ABCDEF''" and room = room_of_one and s = "''s2''" and n = "''bob''"]
  by (simp add: lobby1_rooms lobby1_players lobby1_adapter room_of_one_def bob_def
      lobby1_def [symmetric] del: run.simps)

text \<open>
  C3 as written, with the joiner excluded from the broadcast, fails: when \<open>s2\<close>
  joins the room of \<open>s1\<close>, \<open>playerJoined\<close> goes to \<open>s1\<close> and to \<open>s2\<close>, the joiner.
\<close>

theorem joiner_receives_playerJoined:
  "snd (joinRoom lobby1 ''s2'' ''ABCDEF'' ''bob'') ! 1 =
     IoTo ''ABCDEF'' {''s2'', ''s1''} (PlayerJoined bob) \<and>
   ''s2'' \<in> recipients (snd (joinRoom lobby1 ''s2'' ''ABCDEF'' ''bob'') ! 1)"
  by (simp add: joinRoom_def Let_def socket_join_def io_to_def lobby1_rooms lobby1_adapter
      room_of_one_def bob_def)

section \<open>disconnect\<close>







section \<open>The countdown\<close>

lemma timers_frame:
  "h < nextTimer st \<Longrightarrow> e \<noteq> Tick h \<Longrightarrow> timers (fst (step st e)) h = timers st h"
  by (cases e)
     (auto simp: createRoom_def joinRoom_def startGame_def tick_def submitDrawing_def
        submitSlogan_def chatMessage_def disconnect_def Let_def socket_join_def leave_all_def
        split: option.splits prod.splits if_splits)

lemma nextTimer_mono: "nextTimer st \<le> nextTimer (fst (step st e))"
  by (cases e)
     (auto simp: createRoom_def joinRoom_def startGame_def tick_def submitDrawing_def
        submitSlogan_def chatMessage_def disconnect_def Let_def socket_join_def leave_all_def
        split: option.splits prod.splits if_splits)

lemma emitted_by_cleared:
  "timers st h = None \<Longrightarrow> h < nextTimer st \<Longrightarrow> emitted_by h st evs = []"
proof (induction evs arbitrary: st)
  case Nil
  then show ?case by simp
next
  case (Cons e evs)
  have lt: "h < nextTimer (fst (step st e))"
    using Cons.prems(2) nextTimer_mono [of st e] by simp
  show ?case
  proof (cases "e = Tick h")
    case True
    from Cons.prems(1) have "tick st h = (st, [])" by (simp add: tick_def)
    with Cons.IH [OF Cons.prems] True show ?thesis by simp
  next
    case False
    with Cons.prems have "timers (fst (step st e)) h = None" by (simp add: timers_frame)
    from Cons.IH [OF this lt] False show ?thesis by simp
  qed
qed

lemma emitted_by_armed:
  "timers st h = Some t \<Longrightarrow> h < nextTimer st \<Longrightarrow>
   map broadcast_of (emitted_by h st evs) =
     map (\<lambda>m. Some (roomCode_t t, m)) (countdown_msgs (countdown t) (count_list evs (Tick h)))"
proof (induction evs arbitrary: st t)
  case Nil
  then show ?case by simp
next
  case (Cons e evs)
  have lt: "h < nextTimer (fst (step st e))"
    using Cons.prems(2) nextTimer_mono [of st e] by simp
  show ?case
  proof (cases "e = Tick h")
    case False
    with Cons.prems have "timers (fst (step st e)) h = Some t" by (simp add: timers_frame)
    from Cons.IH [OF this lt] False show ?thesis by simp
  next
    case True
    show ?thesis
    proof (cases "countdown t - 1 \<le> 0")
      case last: True
      have st': "timers (fst (tick st h)) h = None"
        and out: "map broadcast_of (snd (tick st h)) =
          [Some (roomCode_t t, CountdownUpdate (countdown t - 1)),
           Some (roomCode_t t, PhaseUpdate ''drawing'' 90)]"
        using Cons.prems(1) last by (simp_all add: tick_def Let_def io_to_def)
      from lt True have "h < nextTimer (fst (tick st h))" by simp
      with st' have "emitted_by h (fst (tick st h)) evs = []" by (rule emitted_by_cleared)
      with out True last show ?thesis by simp
    next
      case more: False
      have st': "timers (fst (tick st h)) h = Some (t\<lparr>countdown := countdown t - 1\<rparr>)"
        and out: "map broadcast_of (snd (tick st h)) =
          [Some (roomCode_t t, CountdownUpdate (countdown t - 1))]"
        using Cons.prems(1) more by (simp_all add: tick_def Let_def io_to_def)
      from lt True have "h < nextTimer (fst (tick st h))" by simp
      from Cons.IH [OF st' this] out True more show ?thesis by simp
    qed
  qed
qed

lemma countdown_msgs_3:
  "countdown_msgs 3 n =
     (if 3 \<le> n then [CountdownUpdate 2, CountdownUpdate 1, CountdownUpdate 0,
                       PhaseUpdate ''drawing'' 90]
      else take n [CountdownUpdate 2, CountdownUpdate 1, CountdownUpdate 0])"
proof -
  consider "n = 0" | "n = 1" | "n = 2" | m where "n = Suc (Suc (Suc m))"
    by (metis One_nat_def Suc_1 not0_implies_Suc)
  then show ?thesis
    by cases (simp_all add: numeral_2_eq_2)
qed

lemma startGame_ok:
  "rooms st rc = Some room \<Longrightarrow> host room = s \<Longrightarrow> 2 \<le> length (players_room room) \<Longrightarrow>
   startGame st s rc =
     (st\<lparr>rooms := (rooms st)(rc \<mapsto> room\<lparr>gameState := ''drawing''\<rparr>),
         timers := (timers st)(nextTimer st \<mapsto> \<lparr>roomCode_t = rc, countdown = 3\<rparr>),
         nextTimer := Suc (nextTimer st)\<rparr>,
      [IoTo rc (adapter st rc) (GameStarting 3)])"
  by (simp add: startGame_def Let_def io_to_def)

text \<open>
  C1, as the code has it. An accepted startGame sets \<open>gameState\<close> to \<open>drawing\<close>,
  broadcasts \<open>gameStarting\<close> with countdown 3 and arms one interval. Whatever events
  run in between, the interval's callback emits, to the room's group,
  \<open>countdownUpdate\<close> with 2, then 1, then 0, and with the 0 one \<open>phaseUpdate\<close> with
  phase \<open>drawing\<close> and timer 90; after that it emits nothing. With fewer than three
  runs of the callback the sequence is the corresponding prefix of 2, 1, 0.
\<close>

theorem countdown_sequence:
  assumes "rooms st rc = Some room" and "host room = s"
    and "2 \<le> length (players_room room)"
  shows "snd (startGame st s rc) = [IoTo rc (adapter st rc) (GameStarting 3)] \<and>
         map_option gameState (rooms (fst (startGame st s rc)) rc) = Some ''drawing'' \<and>
         map broadcast_of (emitted_by (nextTimer st) (fst (startGame st s rc)) evs) =
           map (\<lambda>m. Some (rc, m))
             (if 3 \<le> count_list evs (Tick (nextTimer st))
              then [CountdownUpdate 2, CountdownUpdate 1, CountdownUpdate 0,
                    PhaseUpdate ''drawing'' 90]
              else take (count_list evs (Tick (nextTimer st)))
                     [CountdownUpdate 2, CountdownUpdate 1, CountdownUpdate 0])"
proof (intro conjI)
  note ok = startGame_ok [OF assms]
  show "snd (startGame st s rc) = [IoTo rc (adapter st rc) (GameStarting 3)]"
    by (simp add: ok)
  show "map_option gameState (rooms (fst (startGame st s rc)) rc) = Some ''drawing''"
    by (simp add: ok)
  have "timers (fst (startGame st s rc)) (nextTimer st) = Some \<lparr>roomCode_t = rc, countdown = 3\<rparr>"
    and "nextTimer st < nextTimer (fst (startGame st s rc))"
    by (simp_all add: ok)
  from emitted_by_armed [OF this, of evs]
  show "map broadcast_of (emitted_by (nextTimer st) (fst (startGame st s rc)) evs) =
           map (\<lambda>m. Some (rc, m))
             (if 3 \<le> count_list evs (Tick (nextTimer st))
              then [CountdownUpdate 2, CountdownUpdate 1, CountdownUpdate 0,
                    PhaseUpdate ''drawing'' 90]
              else take (count_list evs (Tick (nextTimer st)))
                     [CountdownUpdate 2, CountdownUpdate 1, CountdownUpdate 0])"
    by (simp only: countdown_msgs_3 interval.simps)
qed

theorem countdown_sequence_witness:
  "rooms lobby2 ''ABCDEF'' = Some room_of_two \<and> host room_of_two = ''s1'' \<and>
   2 \<le> length (players_room room_of_two) \<and>
   snd (startGame lobby2 ''s1'' ''ABCDEF'') = [IoTo ''ABCDEF'' {''s2'', ''s1''} (GameStarting 3)] \<and>
   map broadcast_of (emitted_by 0 (fst (startGame lobby2 ''s1'' ''ABCDEF''))
       [Tick 0, Chat ''s2'' ''hello'' ''10:15'', Tick 0, Tick 0, Disconnect ''s2'', Tick 0]) =
     [Some (''ABCDEF'', CountdownUpdate 2), Some (''ABCDEF'', CountdownUpdate 1),
      Some (''ABCDEF'', CountdownUpdate 0), Some (''ABCDEF'', PhaseUpdate ''drawing'' 90)]"
  using countdown_sequence [where st = lobby2 and rc = "''ABCDEF''" and room = room_of_two
      and s = "''s1''"
      and evs = "[Tick 0, Chat ''s2'' ''hello'' ''10:15'', Tick 0, Tick 0, Disconnect ''s2'', Tick 0]"]
  by (simp add: lobby2_rooms lobby2_adapter lobby2_timers room_of_two_def
      del: emitted_by.simps)

text \<open>
  C1 as written, with the values 3, 2, 1, fails in the scenario of a room, two
  more players, the host starting the game and three runs of the callback: the
  values sent are 2, 1, 0.
\<close>

theorem countdown_values_are_2_1_0:
  "map message_of (snd (run lobby3 [StartGame ''s1'' ''ABCDEF'', Tick 0, Tick 0, Tick 0])) =
     [GameStarting 3, CountdownUpdate 2, CountdownUpdate 1, CountdownUpdate 0,
      PhaseUpdate ''drawing'' 90] \<and>
   map message_of (snd (run lobby3 [StartGame ''s1'' ''ABCDEF'', Tick 0, Tick 0, Tick 0])) \<noteq>
     [GameStarting 3, CountdownUpdate 3, CountdownUpdate 2, CountdownUpdate 1,
      PhaseUpdate ''drawing'' 90]"
  by (simp add: lobby3_def init_def createRoom_def joinRoom_def startGame_def tick_def
      Let_def socket_join_def io_to_def spread_def)

section \<open>Host promotion and the directory; the countdown of a deleted room\<close>

text \<open>
  C2. After \<open>s1\<close> creates a room, \<open>s2\<close> joins it and \<open>s1\<close> disconnects, the roster entry
  of \<open>s2\<close> has \<open>isHost = True\<close> and the room's host is \<open>s2\<close>, while the entry of \<open>s2\<close> in
  \<^verbatim>\<open>players\<close> still has \<open>isHost = False\<close>: the promotion writes the roster only.
\<close>

theorem promotion_skips_directory:
  "rooms (fst (run init [CreateRoom ''s1'' ''ABCDEF'' ''ann'', JoinRoom ''s2'' ''ABCDEF'' ''bob'',
                         Disconnect ''s1''])) ''ABCDEF'' =
     Some \<lparr>code = ''ABCDEF'', host = ''s2'',
           players_room = [\<lparr>id_p = ''s2'', name = ''bob'', isHost = True\<rparr>],
           gameState = ''waiting'', drawings = [], slogans = []\<rparr> \<and>
   players (fst (run init [CreateRoom ''s1'' ''ABCDEF'' ''ann'', JoinRoom ''s2'' ''ABCDEF'' ''bob'',
                           Disconnect ''s1''])) ''s2'' =
     Some \<lparr>id_p = ''s2'', name = ''bob'', isHost = False, roomCode = ''ABCDEF''\<rparr>"
  by (simp add: init_def createRoom_def joinRoom_def disconnect_def promote_def
      Let_def socket_join_def leave_all_def io_to_def spread_def)

text \<open>
  C8. After the host started the game and both players disconnected, the room is
  gone from \<^verbatim>\<open>rooms\<close> but its interval is still armed, and its callback emits
  \<open>countdownUpdate\<close> 2, 1, 0 and \<open>phaseUpdate\<close> for the deleted room's code.
\<close>

theorem countdown_outlives_room:
  "rooms (fst (run init [CreateRoom ''s1'' ''ABCDEF'' ''ann'', JoinRoom ''s2'' ''ABCDEF'' ''bob'',
       StartGame ''s1'' ''ABCDEF'', Disconnect ''s1'', Disconnect ''s2''])) ''ABCDEF'' = None \<and>
   timers (fst (run init [CreateRoom ''s1'' ''ABCDEF'' ''ann'', JoinRoom ''s2'' ''ABCDEF'' ''bob'',
       StartGame ''s1'' ''ABCDEF'', Disconnect ''s1'', Disconnect ''s2''])) 0 =
     Some \<lparr>roomCode_t = ''ABCDEF'', countdown = 3\<rparr> \<and>
   map broadcast_of (drop 6 (snd (run init [CreateRoom ''s1'' ''ABCDEF'' ''ann'',
       JoinRoom ''s2'' ''ABCDEF'' ''bob'', StartGame ''s1'' ''ABCDEF'', Disconnect ''s1'',
       Disconnect ''s2'', Tick 0, Tick 0, Tick 0]))) =
     [Some (''ABCDEF'', CountdownUpdate 2), Some (''ABCDEF'', CountdownUpdate 1),
      Some (''ABCDEF'', CountdownUpdate 0), Some (''ABCDEF'', PhaseUpdate ''drawing'' 90)]"
  by (simp add: init_def createRoom_def joinRoom_def startGame_def tick_def disconnect_def
      promote_def Let_def socket_join_def leave_all_def io_to_def spread_def)
end
